theory Spec2Isabelle
  imports Main "HOL-Library.Sublist"
begin

section \<open>The Datastream provisioning script\<close>

text \<open>
  A shallow embedding of \<^verbatim>\<open>create_connection_profiles_and_datastream.py\<close>.
  The script reads two secrets with \<^verbatim>\<open>getpass\<close>, sends up to four HTTP requests, prints
  one line per request and sleeps once. All of these effects are threaded through an explicit
  \<open>world\<close>: what the operator will type, what the network will answer, a clock, and the
  log of everything the process has done so far.

  Python strings are modelled as HOL strings, so the model covers the code points below 256.
\<close>

subsection \<open>JSON values and \<^verbatim>\<open>json.dumps\<close>\<close>

datatype json = JString string | JInt int | JArray "json list" | JObject "(string \<times> json) list"

definition hex_digit :: "nat \<Rightarrow> char" where
  "hex_digit n = ''0123456789abcdef'' ! (n mod 16)"

text \<open>
  The escapes of \<^verbatim>\<open>json.encoder.py_encode_basestring_ascii\<close>: the quote, the backslash and
  five control characters have short escapes; every other character outside the range from
  space to tilde is written as a four-digit \<^verbatim>\<open>\u\<close> escape.
\<close>

definition escape_char :: "char \<Rightarrow> string" where
  "escape_char c =
     (if c = CHR 0x5C then [CHR 0x5C, CHR 0x5C]
      else if c = CHR 0x22 then [CHR 0x5C, CHR 0x22]
      else if c = CHR 0x08 then [CHR 0x5C, CHR ''b'']
      else if c = CHR 0x0C then [CHR 0x5C, CHR ''f'']
      else if c = CHR 0x0A then [CHR 0x5C, CHR ''n'']
      else if c = CHR 0x0D then [CHR 0x5C, CHR ''r'']
      else if c = CHR 0x09 then [CHR 0x5C, CHR ''t'']
      else if 32 \<le> (of_char c :: nat) \<and> (of_char c :: nat) \<le> 126 then [c]
      else [CHR 0x5C, CHR ''u'', CHR ''0'', CHR ''0'',
            hex_digit ((of_char c :: nat) div 16), hex_digit (of_char c :: nat)])"

definition encode_basestring_ascii :: "string \<Rightarrow> string" where
  "encode_basestring_ascii s = [CHR 0x22] @ concat (map escape_char s) @ [CHR 0x22]"

fun str_nat :: "nat \<Rightarrow> string" where
  "str_nat n = (if n < 10 then [hex_digit n] else str_nat (n div 10) @ [hex_digit (n mod 10)])"

definition str_int :: "int \<Rightarrow> string" where
  "str_int i = (if i < 0 then CHR ''-'' # str_nat (nat (- i)) else str_nat (nat i))"

fun join :: "string \<Rightarrow> string list \<Rightarrow> string" where
  "join sep [] = []"
| "join sep [x] = x"
| "join sep (x # y # ys) = x @ sep @ join sep (y # ys)"

text \<open>
  \<^verbatim>\<open>json.dumps\<close> with its default arguments: items separated by a comma and a space, keys
  from values by a colon and a space, dictionary items in insertion order.
\<close>

fun json_dumps :: "json \<Rightarrow> string" where
  "json_dumps (JString s) = encode_basestring_ascii s"
| "json_dumps (JInt i) = str_int i"
| "json_dumps (JArray xs) = ''['' @ join '', '' (map json_dumps xs) @ '']''"
| "json_dumps (JObject kvs) =
     ''{'' @ join '', '' (map (\<lambda>kv. encode_basestring_ascii (fst kv) @ '': '' @ json_dumps (snd kv)) kvs)
     @ ''}''"

subsection \<open>Requests, responses and the world\<close>

record request =
  verb :: string
  url :: string
  headers :: "(string \<times> string) list"
  data :: string

text \<open>
  Of a response the script reads \<^verbatim>\<open>status_code\<close> and \<^verbatim>\<open>text\<close>; the latter is the field
  \<open>text_body\<close> here, \<^verbatim>\<open>text\<close> being a keyword.
\<close>

record response =
  status_code :: int
  text_body :: string

text \<open>
  The exceptions that can leave \<^verbatim>\<open>main\<close>: \<^verbatim>\<open>sys.exit(n)\<close> raises \<open>SystemExit n\<close>,
  \<^verbatim>\<open>requests.request\<close> raises when the transport fails, and \<^verbatim>\<open>getpass\<close> raises at the
  end of the input.
\<close>

datatype exn = SystemExit int | ConnectionError | EOFError

datatype event =
    Prompt string
  | Print string
  | Send request
  | Recv response
  | Sleep nat

text \<open>
  \<open>stdin\<close> holds the lines the operator will type. \<open>network\<close> is the script of what the
  remote side will do on the coming calls: how long each takes, and a response or a transport
  failure (\<open>None\<close>). \<open>oversleep\<close> is by how much the scheduler overshoots a sleep.
  \<open>events\<close> is the log, oldest first, each entry stamped with the clock.
\<close>

record world =
  stdin :: "string list"
  network :: "(nat \<times> response option) list"
  oversleep :: nat
  now :: nat
  events :: "(nat \<times> event) list"

definition log_event :: "event \<Rightarrow> world \<Rightarrow> world" where
  "log_event e w = w\<lparr>events := events w @ [(now w, e)]\<rparr>"

definition print :: "string \<Rightarrow> world \<Rightarrow> world" where
  "print s w = log_event (Print s) w"

definition getpass :: "string \<Rightarrow> world \<Rightarrow> (exn + string) \<times> world" where
  "getpass prompt w =
     (let w1 = log_event (Prompt prompt) w
      in case stdin w1 of
           [] \<Rightarrow> (Inl EOFError, w1)
         | line # rest \<Rightarrow> (Inr line, w1\<lparr>stdin := rest\<rparr>))"

definition time_sleep :: "nat \<Rightarrow> world \<Rightarrow> world" where
  "time_sleep secs w = (log_event (Sleep secs) w)\<lparr>now := now w + secs + oversleep w\<rparr>"

definition requests_request ::
  "string \<Rightarrow> string \<Rightarrow> (string \<times> string) list \<Rightarrow> string \<Rightarrow> world \<Rightarrow> (exn + response) \<times> world" where
  "requests_request method u hdrs payload w =
     (let w1 = log_event (Send \<lparr>verb = method, url = u, headers = hdrs, data = payload\<rparr>) w
      in case network w1 of
           [] \<Rightarrow> (Inl ConnectionError, w1)
         | (latency, outcome) # rest \<Rightarrow>
             (let w2 = w1\<lparr>network := rest, now := now w1 + latency\<rparr>
              in case outcome of
                   None \<Rightarrow> (Inl ConnectionError, w2)
                 | Some resp \<Rightarrow> (Inr resp, log_event (Recv resp) w2)))"

subsection \<open>The configuration of \<^verbatim>\<open>variables.py\<close>\<close>

text \<open>
  \<^verbatim>\<open>variables.py\<close> is not part of the sources; its five names are taken as a parameter.
  The dictionaries are records of the keys the script reads. Every value is a string, except
  the database port, which goes into the request body only and may be any JSON value.
\<close>

record source_config =
  source_profile_name :: string
  source_profile_id :: string
  source_db_hostname :: string
  source_db_port :: json
  source_db_username :: string

record destination_config =
  destination_profile_name :: string
  destination_profile_id :: string
  storage_bucket_name :: string
  storage_bucket_prefix :: string

record s_config =
  stream_id :: string
  stream_name :: string

record variables =
  PROJECT_ID :: string
  GCP_LOCATION :: string
  source_profile_config :: source_config
  destination_profile_config :: destination_config
  stream_config :: s_config

subsection \<open>The four operations\<close>

definition create_source_connection_profile ::
  "source_config \<Rightarrow> string \<Rightarrow> string \<Rightarrow> string \<Rightarrow> string \<Rightarrow> world \<Rightarrow> (exn + bool) \<times> world" where
  "create_source_connection_profile source_config db_password token project location w =
     (let profile_name = source_profile_name source_config;
          profile_id = source_profile_id source_config;
          db_hostname = source_db_hostname source_config;
          db_port = source_db_port source_config;
          db_username = source_db_username source_config;
          u = ''https://datastream.googleapis.com/v1/projects/'' @ project @ ''/''
              @ ''locations/'' @ location @ ''/connectionProfiles''
              @ ''?connectionProfileId='' @ profile_id;
          payload = json_dumps (JObject
            [(''displayName'', JString profile_name),
             (''mysqlProfile'', JObject
                [(''hostname'', JString db_hostname),
                 (''port'', db_port),
                 (''username'', JString db_username),
                 (''password'', JString db_password)]),
             (''staticServiceIpConnectivity'', JObject [])]);
          hdrs = [(''Authorization'', token), (''Content-Type'', ''application/json'')]
      in case requests_request ''POST'' u hdrs payload w of
           (Inl e, w1) \<Rightarrow> (Inl e, w1)
         | (Inr response, w1) \<Rightarrow>
             if status_code response = 200 then
               (Inr True,
                print (''Source connection profile '' @ profile_name @ '' created successfully'') w1)
             else if status_code response = 409 then
               (Inr True,
                print (''Source connection profile '' @ profile_name @ '' already exist'') w1)
             else
               (Inr False,
                print (''Issue while creating source connection profile: '' @ text_body response) w1))"

definition create_destination_connection_profile ::
  "string \<Rightarrow> string \<Rightarrow> destination_config \<Rightarrow> string \<Rightarrow> world \<Rightarrow> (exn + bool) \<times> world" where
  "create_destination_connection_profile project location destination_config token w =
     (let d_profile_name = destination_profile_name destination_config;
          d_profile_id = destination_profile_id destination_config;
          bucket_name = storage_bucket_name destination_config;
          bucket_prefix = storage_bucket_prefix destination_config;
          u = ''https://datastream.clients6.google.com/v1alpha1/''
              @ ''projects/'' @ project @ ''/locations/'' @ location
              @ ''/connectionProfiles?connectionProfileId='' @ d_profile_id;
          payload = json_dumps (JObject
            [(''displayName'', JString d_profile_name),
             (''gcsProfile'', JObject
                [(''bucketName'', JString bucket_name),
                 (''rootPath'', JString bucket_prefix)])]);
          hdrs = [(''Authorization'', token), (''Content-Type'', ''application/json'')]
      in case requests_request ''POST'' u hdrs payload w of
           (Inl e, w1) \<Rightarrow> (Inl e, w1)
         | (Inr response, w1) \<Rightarrow>
             if status_code response = 200 then
               (Inr True,
                print (''Destination connection profile '' @ d_profile_id @ '' created successfully'') w1)
             else if status_code response = 409 then
               (Inr True,
                print (''Destination connection profile '' @ d_profile_id @ '' already exist'') w1)
             else
               (Inr False,
                print (''Issue while creating destination connection profile: ''
                       @ text_body response) w1))"

text \<open>
  \<^verbatim>\<open>create_stream\<close> reads the two profile identifiers from the module's globals, not from
  its arguments; the globals are the first argument here.
\<close>

definition create_stream ::
  "variables \<Rightarrow> string \<Rightarrow> string \<Rightarrow> s_config \<Rightarrow> string \<Rightarrow> world \<Rightarrow> (exn + bool) \<times> world" where
  "create_stream globals project location s_config token w =
     (let stream_id = stream_id s_config;
          name = stream_name s_config;
          source_connection_id = source_profile_id (source_profile_config globals);
          destination_connection_id = destination_profile_id (destination_profile_config globals);
          u = ''https://datastream.clients6.google.com/v1alpha1/projects/'' @ project @ ''/''
              @ ''locations/'' @ location @ ''/streams?streamId='' @ stream_id;
          source_connection_path = ''projects/'' @ project @ ''/locations/'' @ location @ ''/''
              @ ''connectionProfiles/'' @ source_connection_id;
          destination_connection_path = ''projects/'' @ project @ ''/locations/'' @ location @ ''/''
              @ ''connectionProfiles/'' @ destination_connection_id;
          payload = json_dumps (JObject
            [(''displayName'', JString name),
             (''sourceConfig'', JObject
                [(''sourceConnectionProfileName'', JString source_connection_path),
                 (''mysqlSourceConfig'', JObject
                    [(''allowlist'', JObject [(''mysqlDatabases'', JArray [])]),
                     (''rejectlist'', JObject [(''mysqlDatabases'', JArray [])])])]),
             (''destinationConfig'', JObject
                [(''destinationConnectionProfileName'', JString destination_connection_path),
                 (''gcsDestinationConfig'', JObject
                    [(''path'', JString []),
                     (''avroFileFormat'', JObject [])])]),
             (''backfillAll'', JObject [(''mysqlExcludedObjects'', JObject [])])]);
          hdrs = [(''Authorization'', token), (''Content-Type'', ''application/json'')]
      in case requests_request ''POST'' u hdrs payload w of
           (Inl e, w1) \<Rightarrow> (Inl e, w1)
         | (Inr response, w1) \<Rightarrow>
             if status_code response = 200 then
               (Inr True, print (''Stream '' @ name @ '' created successfully'') w1)
             else if status_code response = 409 then
               (Inr True, print (''Stream '' @ name @ '' already exist'') w1)
             else
               (Inr False, print (''Issue while creating stream: '' @ text_body response) w1))"

definition start_stream ::
  "string \<Rightarrow> string \<Rightarrow> string \<Rightarrow> s_config \<Rightarrow> world \<Rightarrow> (exn + bool) \<times> world" where
  "start_stream project location token s_config w =
     (let stream_id = stream_id s_config;
          name = stream_name s_config;
          u = ''https://datastream.googleapis.com/v1/''
              @ ''projects/'' @ project @ ''/locations/'' @ location @ ''/streams/'' @ stream_id @ ''?''
              @ ''updateMask=state'';
          payload = json_dumps (JObject [(''state'', JString ''RUNNING'')]);
          hdrs = [(''Authorization'', token), (''Content-Type'', ''application/json'')]
      in case requests_request ''PATCH'' u hdrs payload w of
           (Inl e, w1) \<Rightarrow> (Inl e, w1)
         | (Inr response, w1) \<Rightarrow>
             if status_code response = 200 then
               (Inr True, print (''Stream '' @ name @ '' started successfully'') w1)
             else
               (Inr False, print (''Issue while starting stream: '' @ text_body response) w1))"

subsection \<open>The sequencer\<close>

text \<open>
  The nesting is the source's: the \<^verbatim>\<open>if\<close> on the status of \<^verbatim>\<open>create_stream\<close> has no
  \<^verbatim>\<open>else\<close>, so a failed stream creation falls out of \<^verbatim>\<open>main\<close> by a normal return.
  The source assigns \<^verbatim>\<open>auth_token\<close> twice; its first value, what the operator typed, is
  \<open>typed_token\<close> here.
\<close>

definition main :: "variables \<Rightarrow> world \<Rightarrow> (exn + unit) \<times> world" where
  "main globals w =
     (case getpass (''Enter auth_token, you can generate auth token by ''
                    @ ''running gcloud config set project <project_id> && ''
                    @ ''gcloud auth print-access-token: '') w of
        (Inl e, w1) \<Rightarrow> (Inl e, w1)
      | (Inr typed_token, w1) \<Rightarrow>
     (case getpass ''Enter Source DB Password: '' w1 of
        (Inl e, w2) \<Rightarrow> (Inl e, w2)
      | (Inr source_db_password, w2) \<Rightarrow>
     (let auth_token = ''Bearer '' @ typed_token
      in case create_source_connection_profile (source_profile_config globals)
                source_db_password auth_token (PROJECT_ID globals) (GCP_LOCATION globals) w2 of
        (Inl e, w3) \<Rightarrow> (Inl e, w3)
      | (Inr source_connection_profile_status, w3) \<Rightarrow>
          if source_connection_profile_status then
            (case create_destination_connection_profile (PROJECT_ID globals) (GCP_LOCATION globals)
                    (destination_profile_config globals) auth_token w3 of
               (Inl e, w4) \<Rightarrow> (Inl e, w4)
             | (Inr destination_connection_profile_status, w4) \<Rightarrow>
                 if destination_connection_profile_status then
                   (case create_stream globals (PROJECT_ID globals) (GCP_LOCATION globals)
                           (stream_config globals) auth_token w4 of
                      (Inl e, w5) \<Rightarrow> (Inl e, w5)
                    | (Inr create_stream_status, w5) \<Rightarrow>
                        if create_stream_status then
                          (let w6 = time_sleep 60 w5
                           in case start_stream (PROJECT_ID globals) (GCP_LOCATION globals)
                                     auth_token (stream_config globals) w6 of
                                (Inl e, w7) \<Rightarrow> (Inl e, w7)
                              | (Inr start_stream_status, w7) \<Rightarrow>
                                  if start_stream_status then
                                    (Inr (), print ''Process Completed!'' w7)
                                  else (Inl (SystemExit 1), w7))
                        else (Inr (), w5))
                 else (Inl (SystemExit 1), w4))
          else (Inl (SystemExit 1), w3))))"

text \<open>
  The status the interpreter exits with: 0 after a normal return, the argument of
  \<^verbatim>\<open>sys.exit\<close>, and 1 after any other uncaught exception.
\<close>

fun exit_status :: "exn + unit \<Rightarrow> int" where
  "exit_status (Inr u) = 0"
| "exit_status (Inl (SystemExit n)) = n"
| "exit_status (Inl e) = 1"

subsection \<open>Observations on a world\<close>

definition printed :: "world \<Rightarrow> string list" where
  "printed w = concat (map (\<lambda>te. case snd te of Print s \<Rightarrow> [s] | _ \<Rightarrow> []) (events w))"


definition sent :: "world \<Rightarrow> request list" where
  "sent w = concat (map (\<lambda>te. case snd te of Send rq \<Rightarrow> [rq] | _ \<Rightarrow> []) (events w))"

definition send_times :: "world \<Rightarrow> nat list" where
  "send_times w = concat (map (\<lambda>te. case snd te of Send rq \<Rightarrow> [fst te] | _ \<Rightarrow> []) (events w))"

definition recv_times :: "world \<Rightarrow> nat list" where
  "recv_times w = concat (map (\<lambda>te. case snd te of Recv r \<Rightarrow> [fst te] | _ \<Rightarrow> []) (events w))"

text \<open>
  The shape the four operations share: log the request; when the network has nothing left or
  the transport fails, raise; otherwise log the response, print one line and return a flag.
\<close>

definition exchange ::
  "request \<Rightarrow> (response \<Rightarrow> bool) \<Rightarrow> (response \<Rightarrow> string) \<Rightarrow> world \<Rightarrow> (exn + bool) \<times> world" where
  "exchange rq ok msg w =
     (case network w of
        [] \<Rightarrow> (Inl ConnectionError, w\<lparr>events := events w @ [(now w, Send rq)]\<rparr>)
      | (latency, None) # rest \<Rightarrow>
          (Inl ConnectionError,
           w\<lparr>network := rest, now := now w + latency,
             events := events w @ [(now w, Send rq)]\<rparr>)
      | (latency, Some r) # rest \<Rightarrow>
          (Inr (ok r),
           w\<lparr>network := rest, now := now w + latency,
             events := events w @ [(now w, Send rq), (now w + latency, Recv r),
                                   (now w + latency, Print (msg r))]\<rparr>))"



subsection \<open>A concrete configuration\<close>

definition demo_globals :: variables where
  "demo_globals = \<lparr>PROJECT_ID = ''demo-proj'', GCP_LOCATION = ''us-central1'',
     source_profile_config = \<lparr>source_profile_name = ''orders-db'', source_profile_id = ''src-1'',
        source_db_hostname = ''10.0.0.5'', source_db_port = JInt 3306,
        source_db_username = ''repl''\<rparr>,
     destination_profile_config = \<lparr>destination_profile_name = ''lake'',
        destination_profile_id = ''dst-1'', storage_bucket_name = ''lake-bucket'',
        storage_bucket_prefix = ''/cdc''\<rparr>,
     stream_config = \<lparr>stream_id = ''stream-1'', stream_name = ''orders-to-lake''\<rparr>\<rparr>"

definition answer :: "int \<Rightarrow> string \<Rightarrow> nat \<times> response option" where
  "answer code body = (1, Some \<lparr>status_code = code, text_body = body\<rparr>)"

definition initial_world :: "string list \<Rightarrow> (nat \<times> response option) list \<Rightarrow> world" where
  "initial_world typed script =
     \<lparr>stdin = typed, network = script, oversleep = 0, now = 0, events = []\<rparr>"

section \<open>Properties\<close>

declare json_dumps.simps [simp del]

lemmas operation_defs =
  create_source_connection_profile_def create_destination_connection_profile_def
  create_stream_def start_stream_def

lemmas world_defs = requests_request_def getpass_def time_sleep_def print_def log_event_def

lemmas demo_defs = demo_globals_def answer_def initial_world_def

subsection \<open>What one call to the network does\<close>

lemma requests_request_response:
  "network w = (latency, Some r) # rest \<Longrightarrow>
   requests_request m u h d w =
     (Inr r, w\<lparr>network := rest, now := now w + latency,
               events := events w @ [(now w, Send \<lparr>verb = m, url = u, headers = h, data = d\<rparr>),
                                     (now w + latency, Recv r)]\<rparr>)"
  by (simp add: requests_request_def log_event_def)

lemma requests_request_sent:
  "sent (snd (requests_request m u h d w))
     = sent w @ [\<lparr>verb = m, url = u, headers = h, data = d\<rparr>]"
  by (simp add: requests_request_def log_event_def sent_def Let_def
      split: list.splits option.splits prod.splits)

subsection \<open>Classification of the response\<close>

text \<open>
  C2, as the code has it. Each operation compares the status code with 200 itself, not with the
  200 class. When the response has status 200, each of the four operations returns \<open>True\<close> and
  prints one confirmation line: the source profile by its display name, the destination
  profile by its identifier, the stream by its display name.
\<close>

theorem status_200_succeeds:
  assumes "network w = (latency, Some r) # rest" and "status_code r = 200"
  shows "fst (create_source_connection_profile sc pw tok p l w) = Inr True
       \<and> printed (snd (create_source_connection_profile sc pw tok p l w))
           = printed w @ [''Source connection profile '' @ source_profile_name sc
                          @ '' created successfully'']
       \<and> fst (create_destination_connection_profile p l dc tok w) = Inr True
       \<and> printed (snd (create_destination_connection_profile p l dc tok w))
           = printed w @ [''Destination connection profile '' @ destination_profile_id dc
                          @ '' created successfully'']
       \<and> fst (create_stream g p l stc tok w) = Inr True
       \<and> printed (snd (create_stream g p l stc tok w))
           = printed w @ [''Stream '' @ stream_name stc @ '' created successfully'']
       \<and> fst (start_stream p l tok stc w) = Inr True
       \<and> printed (snd (start_stream p l tok stc w))
           = printed w @ [''Stream '' @ stream_name stc @ '' started successfully'']"
  using assms
  by (simp add: operation_defs requests_request_response print_def printed_def log_event_def
      Let_def)

theorem status_200_succeeds_witness:
  "fst (create_source_connection_profile (source_profile_config demo_globals) ''s3cret''
          ''Bearer t'' ''demo-proj'' ''us-central1'' (initial_world [] [answer 200 ''{}''])) = Inr True
   \<and> printed (snd (create_destination_connection_profile ''demo-proj'' ''us-central1''
          (destination_profile_config demo_globals) ''Bearer t''
          (initial_world [] [answer 200 ''{}''])))
       = [''Destination connection profile dst-1 created successfully'']
   \<and> printed (snd (start_stream ''demo-proj'' ''us-central1'' ''Bearer t''
          (stream_config demo_globals) (initial_world [] [answer 200 ''{}''])))
       = [''Stream orders-to-lake started successfully'']"
  using status_200_succeeds [of "initial_world [] [answer 200 ''{}'']" 1
      "\<lparr>status_code = 200, text_body = ''{}''\<rparr>" "[]"
      "source_profile_config demo_globals" "''s3cret''" "''Bearer t''" "''demo-proj''"
      "''us-central1''" "destination_profile_config demo_globals" demo_globals
      "stream_config demo_globals"]
  by (simp add: demo_defs printed_def)

text \<open>
  C2 as stated fails: 201 is in the 200 class, and a response with status 201 makes
  \<^verbatim>\<open>create_source_connection_profile\<close> and \<^verbatim>\<open>start_stream\<close> print the diagnostic and
  return \<open>False\<close>.
\<close>

theorem status_201_fails:
  "200 \<le> (201::int) \<and> (201::int) < 300
   \<and> create_source_connection_profile (source_profile_config demo_globals) ''s3cret''
        ''Bearer t'' ''demo-proj'' ''us-central1'' (initial_world [] [answer 201 ''{}''])
      = (Inr False,
         \<lparr>stdin = [], network = [], oversleep = 0, now = 1,
           events =
             [(0, Send \<lparr>verb = ''POST'',
                  url = ''https://datastream.googleapis.com/v1/projects/demo-proj/locations/us-central1/connectionProfiles?connectionProfileId=src-1'',
                  headers = [(''Authorization'', ''Bearer t''),
                             (''Content-Type'', ''application/json'')],
                  data = json_dumps (JObject
                    [(''displayName'', JString ''orders-db''),
                     (''mysqlProfile'', JObject
                        [(''hostname'', JString ''10.0.0.5''), (''port'', JInt 3306),
                         (''username'', JString ''repl''), (''password'', JString ''s3cret'')]),
                     (''staticServiceIpConnectivity'', JObject [])])\<rparr>),
              (1, Recv \<lparr>status_code = 201, text_body = ''{}''\<rparr>),
              (1, Print ''Issue while creating source connection profile: {}'')]\<rparr>)
   \<and> fst (start_stream ''demo-proj'' ''us-central1'' ''Bearer t'' (stream_config demo_globals)
        (initial_world [] [answer 201 ''{}''])) = Inr False"
  by (simp add: operation_defs world_defs demo_defs Let_def)

text \<open>
  C4. A response with status 409 makes each of the three creation operations return \<open>True\<close>
  and print that the resource already exists; it makes \<^verbatim>\<open>start_stream\<close>, which has no
  branch for 409, print the diagnostic and return \<open>False\<close>.
\<close>

theorem status_409_conflict:
  assumes "network w = (latency, Some r) # rest" and "status_code r = 409"
  shows "fst (create_source_connection_profile sc pw tok p l w) = Inr True
       \<and> printed (snd (create_source_connection_profile sc pw tok p l w))
           = printed w @ [''Source connection profile '' @ source_profile_name sc
                          @ '' already exist'']
       \<and> fst (create_destination_connection_profile p l dc tok w) = Inr True
       \<and> printed (snd (create_destination_connection_profile p l dc tok w))
           = printed w @ [''Destination connection profile '' @ destination_profile_id dc
                          @ '' already exist'']
       \<and> fst (create_stream g p l stc tok w) = Inr True
       \<and> printed (snd (create_stream g p l stc tok w))
           = printed w @ [''Stream '' @ stream_name stc @ '' already exist'']
       \<and> fst (start_stream p l tok stc w) = Inr False
       \<and> printed (snd (start_stream p l tok stc w))
           = printed w @ [''Issue while starting stream: '' @ text_body r]"
  using assms
  by (simp add: operation_defs requests_request_response print_def printed_def log_event_def
      Let_def)

theorem status_409_conflict_witness:
  "fst (create_stream demo_globals ''demo-proj'' ''us-central1'' (stream_config demo_globals)
          ''Bearer t'' (initial_world [] [answer 409 ''exists''])) = Inr True
   \<and> printed (snd (create_source_connection_profile (source_profile_config demo_globals)
          ''s3cret'' ''Bearer t'' ''demo-proj'' ''us-central1''
          (initial_world [] [answer 409 ''exists''])))
       = [''Source connection profile orders-db already exist'']
   \<and> fst (start_stream ''demo-proj'' ''us-central1'' ''Bearer t'' (stream_config demo_globals)
          (initial_world [] [answer 409 ''exists''])) = Inr False
   \<and> printed (snd (start_stream ''demo-proj'' ''us-central1'' ''Bearer t''
          (stream_config demo_globals) (initial_world [] [answer 409 ''exists''])))
       = [''Issue while starting stream: exists'']"
  using status_409_conflict [of "initial_world [] [answer 409 ''exists'']" 1
      "\<lparr>status_code = 409, text_body = ''exists''\<rparr>" "[]"
      "source_profile_config demo_globals" "''s3cret''" "''Bearer t''" "''demo-proj''"
      "''us-central1''" "destination_profile_config demo_globals" demo_globals
      "stream_config demo_globals"]
  by (simp add: demo_defs printed_def)

text \<open>
  C5. A response whose status is neither 200 nor 409 makes each of the three creation
  operations return \<open>False\<close>, and a response whose status is not 200 makes \<^verbatim>\<open>start_stream\<close>
  return \<open>False\<close>; the line printed is a fixed prefix followed by the body of the response.
\<close>

theorem other_status_fails:
  assumes "network w = (latency, Some r) # rest"
  shows "(status_code r \<notin> {200, 409} \<longrightarrow>
            fst (create_source_connection_profile sc pw tok p l w) = Inr False
          \<and> printed (snd (create_source_connection_profile sc pw tok p l w))
              = printed w @ [''Issue while creating source connection profile: '' @ text_body r]
          \<and> fst (create_destination_connection_profile p l dc tok w) = Inr False
          \<and> printed (snd (create_destination_connection_profile p l dc tok w))
              = printed w @ [''Issue while creating destination connection profile: ''
                             @ text_body r]
          \<and> fst (create_stream g p l stc tok w) = Inr False
          \<and> printed (snd (create_stream g p l stc tok w))
              = printed w @ [''Issue while creating stream: '' @ text_body r])
       \<and> (status_code r \<notin> {200} \<longrightarrow>
            fst (start_stream p l tok stc w) = Inr False
          \<and> printed (snd (start_stream p l tok stc w))
              = printed w @ [''Issue while starting stream: '' @ text_body r])"
  using assms
  by (simp add: operation_defs requests_request_response print_def printed_def log_event_def
      Let_def)

theorem other_status_fails_witness:
  "(500::int) \<notin> {200, 409} \<and> (500::int) \<notin> {200}
   \<and> fst (create_destination_connection_profile ''demo-proj'' ''us-central1''
          (destination_profile_config demo_globals) ''Bearer t''
          (initial_world [] [answer 500 ''boom''])) = Inr False
   \<and> printed (snd (create_stream demo_globals ''demo-proj'' ''us-central1''
          (stream_config demo_globals) ''Bearer t'' (initial_world [] [answer 500 ''boom''])))
       = [''Issue while creating stream: boom'']
   \<and> printed (snd (start_stream ''demo-proj'' ''us-central1'' ''Bearer t''
          (stream_config demo_globals) (initial_world [] [answer 500 ''boom''])))
       = [''Issue while starting stream: boom'']"
  using other_status_fails [of "initial_world [] [answer 500 ''boom'']" 1
      "\<lparr>status_code = 500, text_body = ''boom''\<rparr>" "[]"
      "source_profile_config demo_globals" "''s3cret''" "''Bearer t''" "''demo-proj''"
      "''us-central1''" "destination_profile_config demo_globals" demo_globals
      "stream_config demo_globals"]
  by (simp add: demo_defs printed_def)

subsection \<open>The request of \<^verbatim>\<open>start_stream\<close>\<close>

text \<open>
  C7. Whatever the world, \<^verbatim>\<open>start_stream\<close> sends exactly one request: a PATCH to the
  stream's path with the query \<^verbatim>\<open>updateMask=state\<close>, whose body is the JSON object with the
  single member \<^verbatim>\<open>state\<close>, of value \<^verbatim>\<open>RUNNING\<close>.
\<close>

theorem start_stream_request:
  \<open>sent (snd (start_stream project location token stc w))
     = sent w @
       [\<lparr>verb = ''PATCH'',
         url = ''https://datastream.googleapis.com/v1''
               @ ''/projects/'' @ project @ ''/locations/'' @ location
               @ ''/streams/'' @ stream_id stc @ ''?updateMask=state'',
         headers = [(''Authorization'', token), (''Content-Type'', ''application/json'')],
         data = ''{"state": "RUNNING"}''\<rparr>]\<close>
proof -
  have body: \<open>json_dumps (JObject [(''state'', JString ''RUNNING'')]) = ''{"state": "RUNNING"}''\<close>
    by (simp add: json_dumps.simps encode_basestring_ascii_def escape_char_def)
  have "sent (snd (case requests_request m u h d w of
                     (Inl e, w1) \<Rightarrow> (Inl e, w1)
                   | (Inr response, w1) \<Rightarrow>
                       if status_code response = 200 then (Inr True, print (a response) w1)
                       else (Inr False, print (b response) w1)))
        = sent (snd (requests_request m u h d w))" for m u h d a b
    by (simp add: print_def log_event_def sent_def split: prod.splits sum.splits)
  then show ?thesis
    by (simp add: start_stream_def Let_def requests_request_sent body)
qed

subsection \<open>The operations as exchanges\<close>

lemma exchangeI:
  "(case requests_request (verb rq) (url rq) (headers rq) (data rq) w of
      (Inl e, w1) \<Rightarrow> (Inl e, w1)
    | (Inr r, w1) \<Rightarrow> (Inr (ok r), print (msg r) w1)) = exchange rq ok msg w"
  by (simp add: exchange_def requests_request_def print_def log_event_def
      split: list.splits option.splits)

lemma create_source_connection_profile_exchange:
  "create_source_connection_profile sc db_password token project location =
     exchange
       \<lparr>verb = ''POST'',
         url = ''https://datastream.googleapis.com/v1/projects/'' @ project
               @ ''/locations/'' @ location @ ''/connectionProfiles?connectionProfileId=''
               @ source_profile_id sc,
         headers = [(''Authorization'', token), (''Content-Type'', ''application/json'')],
         data = json_dumps (JObject
           [(''displayName'', JString (source_profile_name sc)),
            (''mysqlProfile'', JObject
               [(''hostname'', JString (source_db_hostname sc)),
                (''port'', source_db_port sc),
                (''username'', JString (source_db_username sc)),
                (''password'', JString db_password)]),
            (''staticServiceIpConnectivity'', JObject [])])\<rparr>
       (\<lambda>r. status_code r = 200 \<or> status_code r = 409)
       (\<lambda>r. if status_code r = 200
              then ''Source connection profile '' @ source_profile_name sc
                   @ '' created successfully''
            else if status_code r = 409
              then ''Source connection profile '' @ source_profile_name sc @ '' already exist''
            else ''Issue while creating source connection profile: '' @ text_body r)"
  apply (rule ext)
  apply (subst exchangeI [symmetric])
  apply (simp add: create_source_connection_profile_def Let_def split: prod.splits sum.splits)
  done

lemma create_destination_connection_profile_exchange:
  "create_destination_connection_profile project location dc token =
     exchange
       \<lparr>verb = ''POST'',
         url = ''https://datastream.clients6.google.com/v1alpha1/projects/'' @ project
               @ ''/locations/'' @ location @ ''/connectionProfiles?connectionProfileId=''
               @ destination_profile_id dc,
         headers = [(''Authorization'', token), (''Content-Type'', ''application/json'')],
         data = json_dumps (JObject
           [(''displayName'', JString (destination_profile_name dc)),
            (''gcsProfile'', JObject
               [(''bucketName'', JString (storage_bucket_name dc)),
                (''rootPath'', JString (storage_bucket_prefix dc))])])\<rparr>
       (\<lambda>r. status_code r = 200 \<or> status_code r = 409)
       (\<lambda>r. if status_code r = 200
              then ''Destination connection profile '' @ destination_profile_id dc
                   @ '' created successfully''
            else if status_code r = 409
              then ''Destination connection profile '' @ destination_profile_id dc
                   @ '' already exist''
            else ''Issue while creating destination connection profile: '' @ text_body r)"
  apply (rule ext)
  apply (subst exchangeI [symmetric])
  apply (simp add: create_destination_connection_profile_def Let_def split: prod.splits sum.splits)
  done

lemma create_stream_exchange:
  "create_stream g project location stc token =
     exchange
       \<lparr>verb = ''POST'',
         url = ''https://datastream.clients6.google.com/v1alpha1/projects/'' @ project
               @ ''/locations/'' @ location @ ''/streams?streamId='' @ stream_id stc,
         headers = [(''Authorization'', token), (''Content-Type'', ''application/json'')],
         data = json_dumps (JObject
           [(''displayName'', JString (stream_name stc)),
            (''sourceConfig'', JObject
               [(''sourceConnectionProfileName'',
                   JString (''projects/'' @ project @ ''/locations/'' @ location
                            @ ''/connectionProfiles/''
                            @ source_profile_id (source_profile_config g))),
                (''mysqlSourceConfig'', JObject
                   [(''allowlist'', JObject [(''mysqlDatabases'', JArray [])]),
                    (''rejectlist'', JObject [(''mysqlDatabases'', JArray [])])])]),
            (''destinationConfig'', JObject
               [(''destinationConnectionProfileName'',
                   JString (''projects/'' @ project @ ''/locations/'' @ location
                            @ ''/connectionProfiles/''
                            @ destination_profile_id (destination_profile_config g))),
                (''gcsDestinationConfig'', JObject
                   [(''path'', JString []), (''avroFileFormat'', JObject [])])]),
            (''backfillAll'', JObject [(''mysqlExcludedObjects'', JObject [])])])\<rparr>
       (\<lambda>r. status_code r = 200 \<or> status_code r = 409)
       (\<lambda>r. if status_code r = 200 then ''Stream '' @ stream_name stc @ '' created successfully''
            else if status_code r = 409 then ''Stream '' @ stream_name stc @ '' already exist''
            else ''Issue while creating stream: '' @ text_body r)"
  apply (rule ext)
  apply (subst exchangeI [symmetric])
  apply (simp add: create_stream_def Let_def split: prod.splits sum.splits)
  done

lemma start_stream_exchange:
  "start_stream project location token stc =
     exchange
       \<lparr>verb = ''PATCH'',
         url = ''https://datastream.googleapis.com/v1/projects/'' @ project @ ''/locations/''
               @ location @ ''/streams/'' @ stream_id stc @ ''?updateMask=state'',
         headers = [(''Authorization'', token), (''Content-Type'', ''application/json'')],
         data = json_dumps (JObject [(''state'', JString ''RUNNING'')])\<rparr>
       (\<lambda>r. status_code r = 200)
       (\<lambda>r. if status_code r = 200 then ''Stream '' @ stream_name stc @ '' started successfully''
            else ''Issue while starting stream: '' @ text_body r)"
  apply (rule ext)
  apply (subst exchangeI [symmetric])
  apply (simp add: start_stream_def Let_def split: prod.splits sum.splits)
  done

lemma operations_opaque:
  obtains u1 d1 u2 d2 u3 d3 u4 d4 msg1 msg2 msg3 msg4 where
    "\<And>pw tok. create_source_connection_profile (source_profile_config g) pw tok (PROJECT_ID g)
        (GCP_LOCATION g)
      = exchange \<lparr>verb = ''POST'', url = u1,
                   headers = [(''Authorization'', tok), (''Content-Type'', ''application/json'')],
                   data = d1 pw\<rparr>
          (\<lambda>r. status_code r = 200 \<or> status_code r = 409) msg1"
    "\<And>tok. create_destination_connection_profile (PROJECT_ID g) (GCP_LOCATION g)
        (destination_profile_config g) tok
      = exchange \<lparr>verb = ''POST'', url = u2,
                   headers = [(''Authorization'', tok), (''Content-Type'', ''application/json'')],
                   data = d2\<rparr>
          (\<lambda>r. status_code r = 200 \<or> status_code r = 409) msg2"
    "\<And>tok. create_stream g (PROJECT_ID g) (GCP_LOCATION g) (stream_config g) tok
      = exchange \<lparr>verb = ''POST'', url = u3,
                   headers = [(''Authorization'', tok), (''Content-Type'', ''application/json'')],
                   data = d3\<rparr>
          (\<lambda>r. status_code r = 200 \<or> status_code r = 409) msg3"
    "\<And>tok. start_stream (PROJECT_ID g) (GCP_LOCATION g) tok (stream_config g)
      = exchange \<lparr>verb = ''PATCH'', url = u4,
                   headers = [(''Authorization'', tok), (''Content-Type'', ''application/json'')],
                   data = d4\<rparr>
          (\<lambda>r. status_code r = 200) msg4"
  by (rule that [OF create_source_connection_profile_exchange
        create_destination_connection_profile_exchange create_stream_exchange
        start_stream_exchange])

lemma script_cases:
  fixes s :: "(nat \<times> response option) list"
  obtains (closed) "s = []"
  | (failure) latency rest where "s = (latency, None) # rest"
  | (response) latency r rest where "s = (latency, Some r) # rest"
  by (cases s) (auto, metis option.exhaust)

lemma run_cases:
  fixes s :: "(nat \<times> response option) list"
  obtains
    (closed1) "s = []"
  | (failure1) l1 rest where "s = (l1, None) # rest"
  | (closed2) l1 r1 where "s = [(l1, Some r1)]"
  | (failure2) l1 r1 l2 rest where "s = (l1, Some r1) # (l2, None) # rest"
  | (closed3) l1 r1 l2 r2 where "s = [(l1, Some r1), (l2, Some r2)]"
  | (failure3) l1 r1 l2 r2 l3 rest where
      "s = (l1, Some r1) # (l2, Some r2) # (l3, None) # rest"
  | (closed4) l1 r1 l2 r2 l3 r3 where "s = [(l1, Some r1), (l2, Some r2), (l3, Some r3)]"
  | (failure4) l1 r1 l2 r2 l3 r3 l4 rest where
      "s = (l1, Some r1) # (l2, Some r2) # (l3, Some r3) # (l4, None) # rest"
  | (responses) l1 r1 l2 r2 l3 r3 l4 r4 rest where
      "s = (l1, Some r1) # (l2, Some r2) # (l3, Some r3) # (l4, Some r4) # rest"
proof (cases s rule: script_cases)
  case (response l1 r1 s1)
  then show ?thesis
  proof (cases s1 rule: script_cases)
    case (response l2 r2 s2)
    then show ?thesis
    proof (cases s2 rule: script_cases)
      case (response l3 r3 s3)
      then show ?thesis
        using \<open>s = (l1, Some r1) # s1\<close> \<open>s1 = (l2, Some r2) # s2\<close> that
        by (cases s3 rule: script_cases) simp_all
    qed (use \<open>s = (l1, Some r1) # s1\<close> \<open>s1 = (l2, Some r2) # s2\<close> that in simp_all)
  qed (use response that in simp_all)
qed (use that in simp_all)

lemma bearer_differs: "''Bearer '' @ t \<noteq> t"
  by (metis append_self_conv2 list.distinct(1))

lemma sent_exchange: "sent (snd (exchange rq ok msg w)) = sent w @ [rq]"
  by (simp add: exchange_def sent_def split: list.splits option.splits)

lemma length_sent_exchange:
  "exchange rq ok msg w = (x, w') \<Longrightarrow> length (sent w') = Suc (length (sent w))"
  using sent_exchange [of rq ok msg w] by simp

lemma sent_getpass: "getpass p w = (x, w') \<Longrightarrow> sent w' = sent w"
  by (auto simp add: getpass_def log_event_def sent_def Let_def split: list.splits)

lemma length_sent_create_source_connection_profile:
  "create_source_connection_profile sc pw tok p l w = (x, w') \<Longrightarrow>
     length (sent w') = Suc (length (sent w))"
  unfolding create_source_connection_profile_exchange by (rule length_sent_exchange)

lemma length_sent_create_destination_connection_profile:
  "create_destination_connection_profile p l dc tok w = (x, w') \<Longrightarrow>
     length (sent w') = Suc (length (sent w))"
  unfolding create_destination_connection_profile_exchange by (rule length_sent_exchange)

lemma length_sent_create_stream:
  "create_stream g p l stc tok w = (x, w') \<Longrightarrow> length (sent w') = Suc (length (sent w))"
  unfolding create_stream_exchange by (rule length_sent_exchange)



subsection \<open>The Authorization header\<close>

text \<open>
  C10. In a run where the operator answers both prompts, every request the script sends carries
  exactly two headers; the value of \<^verbatim>\<open>Authorization\<close> is the typed token with the
  prefix \<^verbatim>\<open>Bearer \<close> put in front, which is never the typed token itself.
\<close>

theorem authorization_header:
  "(\<forall>rq \<in> set (sent (snd (main g \<lparr>stdin = typed_token # pw # ins, network = script,
                                       oversleep = k, now = t0, events = []\<rparr>))).
       headers rq = [(''Authorization'', ''Bearer '' @ typed_token),
                     (''Content-Type'', ''application/json'')])
   \<and> ''Bearer '' @ typed_token \<noteq> typed_token"
proof -
  obtain u1 d1 u2 d2 u3 d3 u4 d4 msg1 msg2 msg3 msg4 where ops:
    "\<And>pw tok. create_source_connection_profile (source_profile_config g) pw tok (PROJECT_ID g)
        (GCP_LOCATION g)
      = exchange \<lparr>verb = ''POST'', url = u1,
                   headers = [(''Authorization'', tok), (''Content-Type'', ''application/json'')],
                   data = d1 pw\<rparr>
          (\<lambda>r. status_code r = 200 \<or> status_code r = 409) msg1"
    "\<And>tok. create_destination_connection_profile (PROJECT_ID g) (GCP_LOCATION g)
        (destination_profile_config g) tok
      = exchange \<lparr>verb = ''POST'', url = u2,
                   headers = [(''Authorization'', tok), (''Content-Type'', ''application/json'')],
                   data = d2\<rparr>
          (\<lambda>r. status_code r = 200 \<or> status_code r = 409) msg2"
    "\<And>tok. create_stream g (PROJECT_ID g) (GCP_LOCATION g) (stream_config g) tok
      = exchange \<lparr>verb = ''POST'', url = u3,
                   headers = [(''Authorization'', tok), (''Content-Type'', ''application/json'')],
                   data = d3\<rparr>
          (\<lambda>r. status_code r = 200 \<or> status_code r = 409) msg3"
    "\<And>tok. start_stream (PROJECT_ID g) (GCP_LOCATION g) tok (stream_config g)
      = exchange \<lparr>verb = ''PATCH'', url = u4,
                   headers = [(''Authorization'', tok), (''Content-Type'', ''application/json'')],
                   data = d4\<rparr>
          (\<lambda>r. status_code r = 200) msg4"
    by (rule operations_opaque [of g]) blast
  have "\<forall>rq \<in> set (sent (snd (main g \<lparr>stdin = typed_token # pw # ins, network = script,
                                       oversleep = k, now = t0, events = []\<rparr>))).
       headers rq = [(''Authorization'', ''Bearer '' @ typed_token),
                     (''Content-Type'', ''application/json'')]"
    by (cases script rule: run_cases)
      (simp_all add: main_def getpass_def time_sleep_def print_def log_event_def Let_def ops
        exchange_def sent_def)
  then show ?thesis
    using bearer_differs by blast
qed

theorem authorization_header_witness:
  "map headers (sent (snd (main demo_globals (initial_world [''ya29.a0'', ''s3cret'']
       [answer 200 ''{}'', answer 409 ''{}'', answer 200 ''{}'', answer 200 ''{}'']))))
   = replicate 4 [(''Authorization'', ''Bearer ya29.a0''),
                  (''Content-Type'', ''application/json'')]"
proof -
  let ?requests = "sent (snd (main demo_globals (initial_world [''ya29.a0'', ''s3cret'']
       [answer 200 ''{}'', answer 409 ''{}'', answer 200 ''{}'', answer 200 ''{}''])))"
  have four: "length (map headers ?requests) = 4"
    by (simp add: main_def operation_defs world_defs demo_defs Let_def sent_def)
  have "\<forall>h \<in> set (map headers ?requests).
          h = [(''Authorization'', ''Bearer ya29.a0''), (''Content-Type'', ''application/json'')]"
    using authorization_header [of demo_globals "''ya29.a0''" "''s3cret''" "[]"
        "[answer 200 ''{}'', answer 409 ''{}'', answer 200 ''{}'', answer 200 ''{}'']" 0 0]
    by (simp add: initial_world_def)
  then show ?thesis
    using four replicate_length_same by metis
qed

subsection \<open>The exit status\<close>

text \<open>
  C1, at the input where the code departs from it. Both profiles are created and the
  create-stream call answers 500: the script prints the body, sends no fourth request, and
  \<^verbatim>\<open>main\<close> returns normally, so the process exits with status 0, not 1.
\<close>

theorem create_stream_failure_exits_0:
  \<open>exit_status (fst (main demo_globals (initial_world [''ya29.a0'', ''s3cret'']
       [answer 200 ''{}'', answer 200 ''{}'', answer 500 ''{"error":"invalid argument"}''])))
     = 0
   \<and> printed (snd (main demo_globals (initial_world [''ya29.a0'', ''s3cret'']
       [answer 200 ''{}'', answer 200 ''{}'', answer 500 ''{"error":"invalid argument"}''])))
     = [''Source connection profile orders-db created successfully'',
        ''Destination connection profile dst-1 created successfully'',
        ''Issue while creating stream: {"error":"invalid argument"}'']
   \<and> length (sent (snd (main demo_globals (initial_world [''ya29.a0'', ''s3cret'']
       [answer 200 ''{}'', answer 200 ''{}'', answer 500 ''{"error":"invalid argument"}'']))))
     = 3\<close>
  by (simp add: main_def operation_defs world_defs demo_defs Let_def sent_def printed_def)

subsection \<open>The order of the calls\<close>

text \<open>
  C3. Once both prompts are answered: when \<^verbatim>\<open>create_source_connection_profile\<close> returns
  \<open>False\<close>, \<^verbatim>\<open>main\<close> ends in the world that call left, with one request sent; when
  \<^verbatim>\<open>create_destination_connection_profile\<close> returns \<open>False\<close>, it ends in the world that
  call left, with two requests sent; when \<^verbatim>\<open>create_stream\<close> returns \<open>False\<close>, it ends in
  the world that call left, with three requests sent. Every operation sends a request when it
  is invoked, so no later operation was invoked.
\<close>

theorem sequencer_short_circuits:
  assumes "getpass (''Enter auth_token, you can generate auth token by ''
                    @ ''running gcloud config set project <project_id> && ''
                    @ ''gcloud auth print-access-token: '') w = (Inr typed_token, w1)"
    and "getpass ''Enter Source DB Password: '' w1 = (Inr pw, w2)"
  shows "(create_source_connection_profile (source_profile_config g) pw
            (''Bearer '' @ typed_token) (PROJECT_ID g) (GCP_LOCATION g) w2 = (Inr False, w3)
          \<longrightarrow> main g w = (Inl (SystemExit 1), w3) \<and> length (sent w3) = length (sent w) + 1)
       \<and> (create_source_connection_profile (source_profile_config g) pw
            (''Bearer '' @ typed_token) (PROJECT_ID g) (GCP_LOCATION g) w2 = (Inr True, w3)
          \<and> create_destination_connection_profile (PROJECT_ID g) (GCP_LOCATION g)
            (destination_profile_config g) (''Bearer '' @ typed_token) w3 = (Inr False, w4)
          \<longrightarrow> main g w = (Inl (SystemExit 1), w4) \<and> length (sent w4) = length (sent w) + 2)
       \<and> (create_source_connection_profile (source_profile_config g) pw
            (''Bearer '' @ typed_token) (PROJECT_ID g) (GCP_LOCATION g) w2 = (Inr True, w3)
          \<and> create_destination_connection_profile (PROJECT_ID g) (GCP_LOCATION g)
            (destination_profile_config g) (''Bearer '' @ typed_token) w3 = (Inr True, w4)
          \<and> create_stream g (PROJECT_ID g) (GCP_LOCATION g) (stream_config g)
            (''Bearer '' @ typed_token) w4 = (Inr False, w5)
          \<longrightarrow> main g w = (Inr (), w5) \<and> length (sent w5) = length (sent w) + 3)"
proof (intro conjI impI; (elim conjE)?)
  have s2: "sent w2 = sent w"
    using assms by (simp add: sent_getpass)
  {
    assume "create_source_connection_profile (source_profile_config g) pw
              (''Bearer '' @ typed_token) (PROJECT_ID g) (GCP_LOCATION g) w2 = (Inr False, w3)"
    then show "main g w = (Inl (SystemExit 1), w3)"
      using assms by (simp add: main_def)
  next
    assume "create_source_connection_profile (source_profile_config g) pw
              (''Bearer '' @ typed_token) (PROJECT_ID g) (GCP_LOCATION g) w2 = (Inr False, w3)"
    then show "length (sent w3) = length (sent w) + 1"
      using s2 by (simp add: length_sent_create_source_connection_profile)
  next
    assume "create_source_connection_profile (source_profile_config g) pw
              (''Bearer '' @ typed_token) (PROJECT_ID g) (GCP_LOCATION g) w2 = (Inr True, w3)"
      and "create_destination_connection_profile (PROJECT_ID g) (GCP_LOCATION g)
              (destination_profile_config g) (''Bearer '' @ typed_token) w3 = (Inr False, w4)"
    then show "main g w = (Inl (SystemExit 1), w4)"
      using assms by (simp add: main_def)
  next
    assume "create_source_connection_profile (source_profile_config g) pw
              (''Bearer '' @ typed_token) (PROJECT_ID g) (GCP_LOCATION g) w2 = (Inr True, w3)"
      and "create_destination_connection_profile (PROJECT_ID g) (GCP_LOCATION g)
              (destination_profile_config g) (''Bearer '' @ typed_token) w3 = (Inr False, w4)"
    then show "length (sent w4) = length (sent w) + 2"
      using s2 by (simp add: length_sent_create_source_connection_profile
          length_sent_create_destination_connection_profile)
  next
    assume "create_source_connection_profile (source_profile_config g) pw
              (''Bearer '' @ typed_token) (PROJECT_ID g) (GCP_LOCATION g) w2 = (Inr True, w3)"
      and "create_destination_connection_profile (PROJECT_ID g) (GCP_LOCATION g)
              (destination_profile_config g) (''Bearer '' @ typed_token) w3 = (Inr True, w4)"
      and "create_stream g (PROJECT_ID g) (GCP_LOCATION g) (stream_config g)
              (''Bearer '' @ typed_token) w4 = (Inr False, w5)"
    then show "main g w = (Inr (), w5)"
      using assms by (simp add: main_def)
  next
    assume "create_source_connection_profile (source_profile_config g) pw
              (''Bearer '' @ typed_token) (PROJECT_ID g) (GCP_LOCATION g) w2 = (Inr True, w3)"
      and "create_destination_connection_profile (PROJECT_ID g) (GCP_LOCATION g)
              (destination_profile_config g) (''Bearer '' @ typed_token) w3 = (Inr True, w4)"
      and "create_stream g (PROJECT_ID g) (GCP_LOCATION g) (stream_config g)
              (''Bearer '' @ typed_token) w4 = (Inr False, w5)"
    then show "length (sent w5) = length (sent w) + 3"
      using s2 by (simp add: length_sent_create_source_connection_profile
          length_sent_create_destination_connection_profile length_sent_create_stream)
  }
qed


theorem sequencer_short_circuits_witness:
  "fst (main demo_globals (initial_world [''ya29.a0'', ''s3cret''] [answer 500 ''no''])) = Inl (SystemExit 1)
   \<and> length (sent (snd (main demo_globals
         (initial_world [''ya29.a0'', ''s3cret''] [answer 500 ''no''])))) = 1
   \<and> fst (main demo_globals (initial_world [''ya29.a0'', ''s3cret'']
         [answer 200 ''{}'', answer 500 ''no''])) = Inl (SystemExit 1)
   \<and> length (sent (snd (main demo_globals (initial_world [''ya29.a0'', ''s3cret'']
         [answer 200 ''{}'', answer 500 ''no''])))) = 2
   \<and> fst (main demo_globals (initial_world [''ya29.a0'', ''s3cret'']
         [answer 200 ''{}'', answer 409 ''{}'', answer 500 ''no''])) = Inr ()
   \<and> length (sent (snd (main demo_globals (initial_world [''ya29.a0'', ''s3cret'']
         [answer 200 ''{}'', answer 409 ''{}'', answer 500 ''no''])))) = 3"
proof -
  let ?p1 = "''Enter auth_token, you can generate auth token by ''
             @ ''running gcloud config set project <project_id> && ''
             @ ''gcloud auth print-access-token: ''"
  let ?p2 = "''Enter Source DB Password: ''"
  let ?op1 = "create_source_connection_profile (source_profile_config demo_globals) ''s3cret''
                (''Bearer '' @ ''ya29.a0'') (PROJECT_ID demo_globals) (GCP_LOCATION demo_globals)"
  let ?op2 = "create_destination_connection_profile (PROJECT_ID demo_globals)
                (GCP_LOCATION demo_globals) (destination_profile_config demo_globals)
                (''Bearer '' @ ''ya29.a0'')"
  let ?op3 = "create_stream demo_globals (PROJECT_ID demo_globals) (GCP_LOCATION demo_globals)
                (stream_config demo_globals) (''Bearer '' @ ''ya29.a0'')"
  let ?A = "initial_world [''ya29.a0'', ''s3cret''] [answer 500 ''no'']"
  let ?B = "initial_world [''ya29.a0'', ''s3cret''] [answer 200 ''{}'', answer 500 ''no'']"
  let ?C = "initial_world [''ya29.a0'', ''s3cret'']
              [answer 200 ''{}'', answer 409 ''{}'', answer 500 ''no'']"
  let ?A2 = "snd (getpass ?p2 (snd (getpass ?p1 ?A)))"
  let ?B2 = "snd (getpass ?p2 (snd (getpass ?p1 ?B)))"
  let ?C2 = "snd (getpass ?p2 (snd (getpass ?p1 ?C)))"
  have p: "getpass ?p1 ?A = (Inr ''ya29.a0'', snd (getpass ?p1 ?A))"
      "getpass ?p2 (snd (getpass ?p1 ?A)) = (Inr ''s3cret'', ?A2)"
      "getpass ?p1 ?B = (Inr ''ya29.a0'', snd (getpass ?p1 ?B))"
      "getpass ?p2 (snd (getpass ?p1 ?B)) = (Inr ''s3cret'', ?B2)"
      "getpass ?p1 ?C = (Inr ''ya29.a0'', snd (getpass ?p1 ?C))"
      "getpass ?p2 (snd (getpass ?p1 ?C)) = (Inr ''s3cret'', ?C2)"
    by (simp_all add: getpass_def log_event_def demo_defs)
  have z: "sent ?A = []" "sent ?B = []" "sent ?C = []"
    by (simp_all add: initial_world_def sent_def)
  have a1: "?op1 ?A2 = (Inr False, snd (?op1 ?A2))"
    by (simp add: prod_eq_iff create_source_connection_profile_exchange exchange_def
        getpass_def log_event_def demo_defs)
  have b1: "?op1 ?B2 = (Inr True, snd (?op1 ?B2))"
    by (simp add: prod_eq_iff create_source_connection_profile_exchange exchange_def
        getpass_def log_event_def demo_defs)
  have b2: "?op2 (snd (?op1 ?B2)) = (Inr False, snd (?op2 (snd (?op1 ?B2))))"
    by (simp add: prod_eq_iff create_source_connection_profile_exchange
        create_destination_connection_profile_exchange exchange_def
        getpass_def log_event_def demo_defs)
  have c1: "?op1 ?C2 = (Inr True, snd (?op1 ?C2))"
    by (simp add: prod_eq_iff create_source_connection_profile_exchange exchange_def
        getpass_def log_event_def demo_defs)
  have c2: "?op2 (snd (?op1 ?C2)) = (Inr True, snd (?op2 (snd (?op1 ?C2))))"
    by (simp add: prod_eq_iff create_source_connection_profile_exchange
        create_destination_connection_profile_exchange exchange_def
        getpass_def log_event_def demo_defs)
  have c3: "?op3 (snd (?op2 (snd (?op1 ?C2))))
              = (Inr False, snd (?op3 (snd (?op2 (snd (?op1 ?C2))))))"
    by (simp add: prod_eq_iff create_source_connection_profile_exchange
        create_destination_connection_profile_exchange create_stream_exchange exchange_def
        getpass_def log_event_def demo_defs)
  show ?thesis
    using conjunct1 [OF sequencer_short_circuits [OF p(1,2)], THEN mp, OF a1]
      conjunct1 [OF conjunct2 [OF sequencer_short_circuits [OF p(3,4)]], THEN mp,
        OF conjI [OF b1 b2]]
      conjunct2 [OF conjunct2 [OF sequencer_short_circuits [OF p(5,6)]], THEN mp,
        OF conjI [OF c1 conjI [OF c2 c3]]]
    by (simp add: z)
qed

text \<open>
  C6. In a run where the first three calls are answered with 200 or 409, the script sends four
  requests; it starts a sleep of 60 at the time it received the third response, and the fourth
  request leaves no earlier than 60 time units after that response.
\<close>

theorem start_stream_waits:
  assumes "script = (l1, Some r1) # (l2, Some r2) # (l3, Some r3) # rest"
    and "status_code r1 \<in> {200, 409}"
    and "status_code r2 \<in> {200, 409}"
    and "status_code r3 \<in> {200, 409}"
  shows "(let final = snd (main g \<lparr>stdin = typed_token # pw # ins, network = script,
                                     oversleep = k, now = t0, events = []\<rparr>)
          in length (send_times final) = 4
           \<and> 3 \<le> length (recv_times final)
           \<and> recv_times final ! 2 = t0 + l1 + l2 + l3
           \<and> (recv_times final ! 2, Sleep 60) \<in> set (events final)
           \<and> recv_times final ! 2 + 60 \<le> send_times final ! 3)"
proof -
  obtain u1 d1 u2 d2 u3 d3 u4 d4 msg1 msg2 msg3 msg4 where ops:
    "\<And>pw tok. create_source_connection_profile (source_profile_config g) pw tok (PROJECT_ID g)
        (GCP_LOCATION g)
      = exchange \<lparr>verb = ''POST'', url = u1,
                   headers = [(''Authorization'', tok), (''Content-Type'', ''application/json'')],
                   data = d1 pw\<rparr>
          (\<lambda>r. status_code r = 200 \<or> status_code r = 409) msg1"
    "\<And>tok. create_destination_connection_profile (PROJECT_ID g) (GCP_LOCATION g)
        (destination_profile_config g) tok
      = exchange \<lparr>verb = ''POST'', url = u2,
                   headers = [(''Authorization'', tok), (''Content-Type'', ''application/json'')],
                   data = d2\<rparr>
          (\<lambda>r. status_code r = 200 \<or> status_code r = 409) msg2"
    "\<And>tok. create_stream g (PROJECT_ID g) (GCP_LOCATION g) (stream_config g) tok
      = exchange \<lparr>verb = ''POST'', url = u3,
                   headers = [(''Authorization'', tok), (''Content-Type'', ''application/json'')],
                   data = d3\<rparr>
          (\<lambda>r. status_code r = 200 \<or> status_code r = 409) msg3"
    "\<And>tok. start_stream (PROJECT_ID g) (GCP_LOCATION g) tok (stream_config g)
      = exchange \<lparr>verb = ''PATCH'', url = u4,
                   headers = [(''Authorization'', tok), (''Content-Type'', ''application/json'')],
                   data = d4\<rparr>
          (\<lambda>r. status_code r = 200) msg4"
    by (rule operations_opaque [of g]) blast
  show ?thesis
    using assms
    by (cases rest rule: script_cases)
      (simp_all add: main_def getpass_def time_sleep_def print_def log_event_def Let_def ops
        exchange_def send_times_def recv_times_def)
qed


theorem start_stream_waits_witness:
  "length (send_times (snd (main demo_globals (initial_world [''ya29.a0'', ''s3cret'']
       [answer 200 ''{}'', answer 200 ''{}'', answer 409 ''{}'', answer 200 ''{}''])))) = 4
   \<and> recv_times (snd (main demo_globals (initial_world [''ya29.a0'', ''s3cret'']
       [answer 200 ''{}'', answer 200 ''{}'', answer 409 ''{}'', answer 200 ''{}'']))) ! 2 = 3
   \<and> (3, Sleep 60) \<in> set (events (snd (main demo_globals
       (initial_world [''ya29.a0'', ''s3cret'']
         [answer 200 ''{}'', answer 200 ''{}'', answer 409 ''{}'', answer 200 ''{}'']))))
   \<and> 63 \<le> send_times (snd (main demo_globals (initial_world [''ya29.a0'', ''s3cret'']
       [answer 200 ''{}'', answer 200 ''{}'', answer 409 ''{}'', answer 200 ''{}'']))) ! 3"
  using start_stream_waits [of
      "[answer 200 ''{}'', answer 200 ''{}'', answer 409 ''{}'', answer 200 ''{}'']"
      1 "\<lparr>status_code = 200, text_body = ''{}''\<rparr>"
      1 "\<lparr>status_code = 200, text_body = ''{}''\<rparr>"
      1 "\<lparr>status_code = 409, text_body = ''{}''\<rparr>"
      "[answer 200 ''{}'']" demo_globals "''ya29.a0''" "''s3cret''" "[]" 0 0]
  by (auto simp add: answer_def initial_world_def Let_def numeral_3_eq_3)

subsection \<open>What the stream request is built from\<close>

text \<open>
  C8. Each operation returns a flag only (its type is \<open>exn + bool\<close>). In a run where the first
  two calls are answered with 200 or 409, the third request is the one below, whatever those
  answers were: its two profile references are built from the project, the location and the
  two configured profile identifiers.
\<close>

theorem create_stream_request_from_configuration:
  assumes "script = (l1, Some r1) # (l2, Some r2) # rest"
    and "status_code r1 \<in> {200, 409}"
    and "status_code r2 \<in> {200, 409}"
  shows "(let requests = sent (snd (main g \<lparr>stdin = typed_token # pw # ins, network = script,
                                              oversleep = k, now = t0, events = []\<rparr>))
          in 3 \<le> length requests
           \<and> requests ! 2 =
               \<lparr>verb = ''POST'',
                 url = ''https://datastream.clients6.google.com/v1alpha1/projects/''
                       @ PROJECT_ID g @ ''/locations/'' @ GCP_LOCATION g
                       @ ''/streams?streamId='' @ stream_id (stream_config g),
                 headers = [(''Authorization'', ''Bearer '' @ typed_token),
                            (''Content-Type'', ''application/json'')],
                 data = json_dumps (JObject
                   [(''displayName'', JString (stream_name (stream_config g))),
                    (''sourceConfig'', JObject
                       [(''sourceConnectionProfileName'',
                           JString (''projects/'' @ PROJECT_ID g @ ''/locations/''
                                    @ GCP_LOCATION g @ ''/connectionProfiles/''
                                    @ source_profile_id (source_profile_config g))),
                        (''mysqlSourceConfig'', JObject
                           [(''allowlist'', JObject [(''mysqlDatabases'', JArray [])]),
                            (''rejectlist'', JObject [(''mysqlDatabases'', JArray [])])])]),
                    (''destinationConfig'', JObject
                       [(''destinationConnectionProfileName'',
                           JString (''projects/'' @ PROJECT_ID g @ ''/locations/''
                                    @ GCP_LOCATION g @ ''/connectionProfiles/''
                                    @ destination_profile_id (destination_profile_config g))),
                        (''gcsDestinationConfig'', JObject
                           [(''path'', JString []), (''avroFileFormat'', JObject [])])]),
                    (''backfillAll'', JObject [(''mysqlExcludedObjects'', JObject [])])])\<rparr>)"
proof -
  obtain u1 d1 u2 d2 u3 d3 u4 d4 msg1 msg2 msg3 msg4 where ops:
    "\<And>pw tok. create_source_connection_profile (source_profile_config g) pw tok (PROJECT_ID g)
        (GCP_LOCATION g)
      = exchange \<lparr>verb = ''POST'', url = u1,
                   headers = [(''Authorization'', tok), (''Content-Type'', ''application/json'')],
                   data = d1 pw\<rparr>
          (\<lambda>r. status_code r = 200 \<or> status_code r = 409) msg1"
    "\<And>tok. create_destination_connection_profile (PROJECT_ID g) (GCP_LOCATION g)
        (destination_profile_config g) tok
      = exchange \<lparr>verb = ''POST'', url = u2,
                   headers = [(''Authorization'', tok), (''Content-Type'', ''application/json'')],
                   data = d2\<rparr>
          (\<lambda>r. status_code r = 200 \<or> status_code r = 409) msg2"
    and ops3: "\<And>tok. create_stream g (PROJECT_ID g) (GCP_LOCATION g) (stream_config g) tok
      = exchange \<lparr>verb = ''POST'', url = u3,
                   headers = [(''Authorization'', tok), (''Content-Type'', ''application/json'')],
                   data = d3\<rparr>
          (\<lambda>r. status_code r = 200 \<or> status_code r = 409) msg3"
    and ops4: "\<And>tok. start_stream (PROJECT_ID g) (GCP_LOCATION g) tok (stream_config g)
      = exchange \<lparr>verb = ''PATCH'', url = u4,
                   headers = [(''Authorization'', tok), (''Content-Type'', ''application/json'')],
                   data = d4\<rparr>
          (\<lambda>r. status_code r = 200) msg4"
    by (rule operations_opaque [of g]) blast
  note defs = main_def getpass_def time_sleep_def print_def log_event_def Let_def ops ops4
    create_stream_exchange exchange_def sent_def
  show ?thesis
  proof (cases rest rule: script_cases)
    case (response l3 r3 rest3)
    then show ?thesis
      using assms by (cases rest3 rule: script_cases) (simp_all add: defs)
  qed (use assms in \<open>simp_all add: defs\<close>)
qed


theorem create_stream_request_from_configuration_witness:
  "sent (snd (main demo_globals (initial_world [''ya29.a0'', ''s3cret'']
       [answer 409 ''old'', answer 200 ''new'', answer 200 ''{}'']))) ! 2
   = \<lparr>verb = ''POST'',
       url = ''https://datastream.clients6.google.com/v1alpha1/projects/demo-proj/locations/us-central1/streams?streamId=stream-1'',
       headers = [(''Authorization'', ''Bearer ya29.a0''),
                  (''Content-Type'', ''application/json'')],
       data = json_dumps (JObject
         [(''displayName'', JString ''orders-to-lake''),
          (''sourceConfig'', JObject
             [(''sourceConnectionProfileName'',
                 JString ''projects/demo-proj/locations/us-central1/connectionProfiles/src-1''),
              (''mysqlSourceConfig'', JObject
                 [(''allowlist'', JObject [(''mysqlDatabases'', JArray [])]),
                  (''rejectlist'', JObject [(''mysqlDatabases'', JArray [])])])]),
          (''destinationConfig'', JObject
             [(''destinationConnectionProfileName'',
                 JString ''projects/demo-proj/locations/us-central1/connectionProfiles/dst-1''),
              (''gcsDestinationConfig'', JObject
                 [(''path'', JString []), (''avroFileFormat'', JObject [])])]),
          (''backfillAll'', JObject [(''mysqlExcludedObjects'', JObject [])])])\<rparr>"
  using create_stream_request_from_configuration [of
      "[answer 409 ''old'', answer 200 ''new'', answer 200 ''{}'']"
      1 "\<lparr>status_code = 409, text_body = ''old''\<rparr>"
      1 "\<lparr>status_code = 200, text_body = ''new''\<rparr>"
      "[answer 200 ''{}'']" demo_globals "''ya29.a0''" "''s3cret''" "[]" 0 0]
  by (simp add: demo_defs Let_def)

subsection \<open>Where the secrets go\<close>




end
